theory Spec2Isabelle
  imports Complex_Main "HOL-Library.AList"
begin

section \<open>RDF terms and graphs: the part of the graph library the exporter calls\<close>

text \<open>
  The exporter (\<^verbatim>\<open>dmExporter.py\<close>) works on a graph loaded by an RDF library.
  A node is an IRI reference, a blank node or a literal; all three are string subclasses
  in the library, and a literal carries, next to its lexical form, the Python value the
  library computed from it (\<^verbatim>\<open>Literal.value\<close>): \<^verbatim>\<open>None\<close> when it computed none,
  an integer, a boolean, a string, a float (for \<^verbatim>\<open>xsd:double\<close> and \<^verbatim>\<open>xsd:float\<close>), a
  \<^verbatim>\<open>Decimal\<close> (for \<^verbatim>\<open>xsd:decimal\<close>), or another object (a date, a duration, bytes,
  a parsed document). The exporter only asks for the truth value of a value and whether it
  compares equal to 1, so a finite float or \<^verbatim>\<open>Decimal\<close> is given by the rational number
  it stands for, an infinite one or a NaN is \<^verbatim>\<open>PyNonFinite\<close>, and any other object is given
  by its truth value.
\<close>

datatype pyvalue =
    PyNone
  | PyInt int
  | PyBool bool
  | PyStr string
  | PyFloat rat
  | PyDecimal rat
  | PyNonFinite
  | PyObject bool

datatype node = URIRef string | BNode string | Literal string pyvalue

type_synonym triple = "node \<times> node \<times> node"

text \<open>
  A graph is its triples, listed in the order in which the store enumerates them, and the
  rendering \<^verbatim>\<open>node.n3(g.namespace_manager)\<close> of a node under the graph's
  namespace bindings. The rendering is computed by the library from the prefixes bound
  in the Turtle source; it is a field of the graph here.
\<close>

record graph =
  store :: "triple list"
  n3 :: "node \<Rightarrow> string"

text \<open>\<^verbatim>\<open>g.triples((s, p, o))\<close>: the triples matching a pattern, \<^verbatim>\<open>None\<close> a wildcard.\<close>

definition triples :: "graph \<Rightarrow> node option \<times> node option \<times> node option \<Rightarrow> triple list" where
  "triples g pat =
     (case pat of (ps, pp, po) \<Rightarrow>
        filter (\<lambda>t. (ps = None \<or> ps = Some (fst t))
                  \<and> (pp = None \<or> pp = Some (fst (snd t)))
                  \<and> (po = None \<or> po = Some (snd (snd t)))) (store g))"

text \<open>\<^verbatim>\<open>g.value(subject, predicate, None)\<close>: the first matching object, or \<^verbatim>\<open>None\<close>.\<close>

definition graph_value :: "graph \<Rightarrow> node \<Rightarrow> node \<Rightarrow> node option" where
  "graph_value g subject predicate =
     (case triples g (Some subject, Some predicate, None) of
        [] \<Rightarrow> None
      | t # _ \<Rightarrow> Some (snd (snd t)))"

text \<open>\<^verbatim>\<open>Namespace.term(name)\<close>: the IRI made of the namespace followed by the name.\<close>

definition ns_term :: "string \<Rightarrow> string \<Rightarrow> node" where
  "ns_term ns name = URIRef (ns @ name)"

definition Terra :: string where
  "Terra = ''http://datamodel.terra.bio/TerraDCAT_ap#''"

definition Prov :: string where
  "Prov = ''http://www.w3.org/ns/prov#''"

definition OWL :: string where
  "OWL = ''http://www.w3.org/2002/07/owl#''"

definition RDFS :: string where
  "RDFS = ''http://www.w3.org/2000/01/rdf-schema#''"

definition OWL_equivalentClass :: node where
  "OWL_equivalentClass = ns_term OWL ''equivalentClass''"

definition OWL_cardinality :: node where
  "OWL_cardinality = ns_term OWL ''cardinality''"

definition OWL_onProperty :: node where
  "OWL_onProperty = ns_term OWL ''onProperty''"

definition RDFS_range :: node where
  "RDFS_range = ns_term RDFS ''range''"

definition RDFS_label :: node where
  "RDFS_label = ns_term RDFS ''label''"

definition Prov_definition :: node where
  "Prov_definition = ns_term Prov ''definition''"

section \<open>Python values and errors\<close>

datatype error =
    AttributeError string string
  | FileNotFoundError string
  | BadSyntax
  | KeyError string
  | EOFError

text \<open>The objects the exporter builds: dictionaries keep their insertion order.\<close>

datatype pyobj =
    PNone
  | PStr string
  | PBool bool
  | PNode node
  | PList "pyobj list"
  | PDict "(string \<times> pyobj) list"

text \<open>\<^verbatim>\<open>str(x)\<close> of a node is its string content; \<^verbatim>\<open>str(None)\<close> is \<^verbatim>\<open>"None"\<close>.\<close>

fun str_node :: "node \<Rightarrow> string" where
  "str_node (URIRef u) = u"
| "str_node (BNode b) = b"
| "str_node (Literal lexical v) = lexical"

definition py_str :: "node option \<Rightarrow> string" where
  "py_str x = (case x of None \<Rightarrow> ''None'' | Some n \<Rightarrow> str_node n)"

definition py_node :: "node option \<Rightarrow> pyobj" where
  "py_node x = (case x of None \<Rightarrow> PNone | Some n \<Rightarrow> PNode n)"

text \<open>
  Truth value of a Python value, and the comparison \<^verbatim>\<open>v == 1\<close>: numbers compare by
  value across the numeric types (\<^verbatim>\<open>1.0 == 1\<close>, \<^verbatim>\<open>Decimal('1.0') == 1\<close>), a boolean
  is the integer 0 or 1 (\<^verbatim>\<open>True == 1\<close>), and nothing else equals 1.
\<close>

fun py_bool :: "pyvalue \<Rightarrow> bool" where
  "py_bool PyNone = False"
| "py_bool (PyInt n) = (n \<noteq> 0)"
| "py_bool (PyBool b) = b"
| "py_bool (PyStr s) = (s \<noteq> [])"
| "py_bool (PyFloat q) = (q \<noteq> 0)"
| "py_bool (PyDecimal q) = (q \<noteq> 0)"
| "py_bool PyNonFinite = True"
| "py_bool (PyObject b) = b"

fun py_eq_one :: "pyvalue \<Rightarrow> bool" where
  "py_eq_one (PyInt n) = (n = 1)"
| "py_eq_one (PyBool b) = b"
| "py_eq_one PyNone = False"
| "py_eq_one (PyStr s) = False"
| "py_eq_one (PyFloat q) = (q = 1)"
| "py_eq_one (PyDecimal q) = (q = 1)"
| "py_eq_one PyNonFinite = False"
| "py_eq_one (PyObject b) = False"

text \<open>
  Truth value of a node: a literal with a value has the truth value of the value, any
  other node that of its string content.
\<close>

fun node_bool :: "node \<Rightarrow> bool" where
  "node_bool (URIRef u) = (u \<noteq> [])"
| "node_bool (BNode b) = (b \<noteq> [])"
| "node_bool (Literal lexical v) = (if v = PyNone then lexical \<noteq> [] else py_bool v)"

text \<open>The attribute \<^verbatim>\<open>.value\<close>: only literals have it.\<close>

fun node_value :: "node \<Rightarrow> error + pyvalue" where
  "node_value (Literal lexical v) = Inr v"
| "node_value (URIRef u) = Inl (AttributeError ''URIRef'' ''value'')"
| "node_value (BNode b) = Inl (AttributeError ''BNode'' ''value'')"

section \<open>The exporter: \<^verbatim>\<open>ttl_to_json\<close>\<close>

text \<open>The test \<^verbatim>\<open>cardinality and cardinality.value == 1\<close> of the loop body.\<close>

definition cardinality_is_one :: "node option \<Rightarrow> error + bool" where
  "cardinality_is_one cardinality =
     (case cardinality of
        None \<Rightarrow> Inr False
      | Some c \<Rightarrow>
          if node_bool c
          then (case node_value c of Inl e \<Rightarrow> Inl e | Inr v \<Rightarrow> Inr (py_eq_one v))
          else Inr False)"

type_synonym loop_state = "(string \<times> pyobj) list \<times> string list"

text \<open>
  The body of the loop for one \<^verbatim>\<open>owl:equivalentClass\<close> triple, on the pair of
  \<^verbatim>\<open>properties\<close> and \<^verbatim>\<open>required\<close>. A missing \<^verbatim>\<open>owl:onProperty\<close>
  makes \<^verbatim>\<open>prop\<close> \<^verbatim>\<open>None\<close>, and \<^verbatim>\<open>prop.n3\<close> raises.
\<close>

definition property_step :: "graph \<Rightarrow> node \<Rightarrow> loop_state \<Rightarrow> error + loop_state" where
  "property_step g container_node st =
     (let properties = fst st;
          required = snd st;
          cardinality = graph_value g container_node OWL_cardinality;
          prop = graph_value g container_node OWL_onProperty
      in (case prop of
            None \<Rightarrow> Inl (AttributeError ''NoneType'' ''n3'')
          | Some p \<Rightarrow>
              (let ref = n3 g p;
                   rdfs_range_value = graph_value g p RDFS_range;
                   properties' = AList.update (n3 g p)
                     (PDict [(''description'', PStr ref), (''$ref'', py_node rdfs_range_value)])
                     properties
               in (case cardinality_is_one cardinality of
                     Inl e \<Rightarrow> Inl e
                   | Inr b \<Rightarrow>
                       (if b then Inr (properties', required @ [n3 g p])
                        else Inr (properties', required))))))"

fun for_term_triples :: "graph \<Rightarrow> triple list \<Rightarrow> loop_state \<Rightarrow> error + loop_state" where
  "for_term_triples g [] st = Inr st"
| "for_term_triples g (triple # rest) st =
     (if fst (snd triple) = OWL_equivalentClass
      then (case property_step g (snd (snd triple)) st of
              Inl e \<Rightarrow> Inl e
            | Inr st' \<Rightarrow> for_term_triples g rest st')
      else for_term_triples g rest st)"

definition initial_properties :: "(string \<times> pyobj) list" where
  "initial_properties =
     [(''describedBy'',
         PDict [(''description'',
                   PStr ''The URL reference to the JSON Schema that defines this object.''),
                (''type'', PStr ''string'')]),
      (''id'',
         PDict [(''description'', PStr ''UUID for this entity.''),
                (''type'', PStr ''string'')])]"

definition initial_required :: "string list" where
  "initial_required = [''id'', ''describedBy'']"

text \<open>\<^verbatim>\<open>ttl_to_json\<close> from the parsed graph on: lines 72 and 76 to 125.\<close>

definition schema_of_graph :: "graph \<Rightarrow> string \<Rightarrow> error + pyobj" where
  "schema_of_graph g class_name =
     (let rdf_term = ns_term Terra class_name;
          term_triples = triples g (Some rdf_term, None, None)
      in case for_term_triples g term_triples (initial_properties, initial_required) of
           Inl e \<Rightarrow> Inl e
         | Inr st \<Rightarrow>
             Inr (PDict
               [(''$id'', PNode rdf_term),
                (''$schema'', PStr ''http://json-schema.org/draft-07/schema#/''),
                (''title'', py_node (graph_value g rdf_term RDFS_label)),
                (''description'', PStr (py_str (graph_value g rdf_term Prov_definition))),
                (''definitions'', PDict []),
                (''type'', PStr ''object''),
                (''additionalProperties'', PBool True),
                (''properties'', PDict (fst st)),
                (''required'', PList (map PStr (snd st)))]))"

section \<open>Files, and the driver\<close>

datatype json =
    JNull
  | JString string
  | JBool bool
  | JArray "json list"
  | JObject "(string \<times> json) list"

text \<open>\<^verbatim>\<open>json.dump\<close>: \<^verbatim>\<open>None\<close> is \<^verbatim>\<open>null\<close>, a node is the string it subclasses.\<close>

primrec json_dump :: "pyobj \<Rightarrow> json" where
  "json_dump PNone = JNull"
| "json_dump (PStr s) = JString s"
| "json_dump (PBool b) = JBool b"
| "json_dump (PNode n) = JString (str_node n)"
| "json_dump (PList xs) = JArray (map json_dump xs)"
| "json_dump (PDict kvs) = JObject (map (map_prod id json_dump) kvs)"

text \<open>
  A file is described by what reading it gives: a Turtle document by the graph it parses
  to, a file written by \<^verbatim>\<open>json.dump\<close> by the JSON value, an empty file, or anything
  else. The working directory is taken to be writable.
\<close>

datatype content = Turtle graph | Json json | Blank | Other

record world =
  files :: "string \<Rightarrow> content option"
  stdin :: "string list"

text \<open>
  \<^verbatim>\<open>g.parse(ttl_file, format='turtle')\<close>. An empty document is a graph without
  triples, on which the exporter never asks for a rendering.
\<close>

fun default_n3 :: "node \<Rightarrow> string" where
  "default_n3 (URIRef u) = ''<'' @ u @ ''>''"
| "default_n3 (BNode b) = ''_:'' @ b"
| "default_n3 (Literal lexical v) = [CHR 0x22] @ lexical @ [CHR 0x22]"

fun parse_turtle :: "content \<Rightarrow> error + graph" where
  "parse_turtle (Turtle g) = Inr g"
| "parse_turtle Blank = Inr \<lparr>store = [], n3 = default_n3\<rparr>"
| "parse_turtle (Json j) = Inl BadSyntax"
| "parse_turtle Other = Inl BadSyntax"

definition ttl_to_json :: "world \<Rightarrow> string \<Rightarrow> string \<Rightarrow> error + pyobj" where
  "ttl_to_json w file_path class_name =
     (case files w file_path of
        None \<Rightarrow> Inl (FileNotFoundError file_path)
      | Some c \<Rightarrow>
          (case parse_turtle c of
             Inl e \<Rightarrow> Inl e
           | Inr g \<Rightarrow> schema_of_graph g class_name))"

text \<open>The dictionary comprehension of \<^verbatim>\<open>rdf_to_json\<close>: the first exception ends it.\<close>

fun rdf_to_json_from ::
  "world \<Rightarrow> string \<Rightarrow> string list \<Rightarrow> (string \<times> pyobj) list \<Rightarrow> error + (string \<times> pyobj) list" where
  "rdf_to_json_from w file_path [] json_schema_list = Inr json_schema_list"
| "rdf_to_json_from w file_path (class_name # rest) json_schema_list =
     (case ttl_to_json w file_path class_name of
        Inl e \<Rightarrow> Inl e
      | Inr json_schema \<Rightarrow>
          rdf_to_json_from w file_path rest (AList.update class_name json_schema json_schema_list))"

definition rdf_to_json :: "world \<Rightarrow> string \<Rightarrow> string list \<Rightarrow> error + (string \<times> pyobj) list" where
  "rdf_to_json w file_path class_list = rdf_to_json_from w file_path class_list []"

text \<open>
  \<^verbatim>\<open>write_to_json\<close>: opening for writing empties the file before
  \<^verbatim>\<open>json_dict[key]\<close> is looked up.
\<close>

definition write_to_json ::
  "world \<Rightarrow> string \<Rightarrow> (string \<times> pyobj) list \<Rightarrow> string \<Rightarrow> error option \<times> world" where
  "write_to_json w out_file_name json_dict key =
     (let w1 = w\<lparr>files := (files w)(out_file_name \<mapsto> Blank)\<rparr>
      in case map_of json_dict key of
           None \<Rightarrow> (Some (KeyError key), w1)
         | Some d \<Rightarrow> (None, w1\<lparr>files := (files w1)(out_file_name \<mapsto> Json (json_dump d))\<rparr>))"

text \<open>\<^verbatim>\<open>path.exists\<close>.\<close>

definition path_exists :: "world \<Rightarrow> string \<Rightarrow> bool" where
  "path_exists w name = (case files w name of None \<Rightarrow> False | Some c \<Rightarrow> True)"

text \<open>
  The loop of \<^verbatim>\<open>main\<close> over the keys of \<^verbatim>\<open>json_dict\<close>; \<^verbatim>\<open>input\<close> takes the next
  line of the standard input and raises at its end.
\<close>

fun write_files :: "world \<Rightarrow> (string \<times> pyobj) list \<Rightarrow> string list \<Rightarrow> error option \<times> world" where
  "write_files w json_dict [] = (None, w)"
| "write_files w json_dict (key # rest) =
     (let out_file_name = key @ ''.json''
      in if path_exists w out_file_name
         then (case stdin w of
                 [] \<Rightarrow> (Some EOFError, w)
               | rewrite # later \<Rightarrow>
                   if rewrite = ''y''
                   then (case write_to_json (w\<lparr>stdin := later\<rparr>) out_file_name json_dict key of
                           (Some e, w') \<Rightarrow> (Some e, w')
                         | (None, w') \<Rightarrow> write_files w' json_dict rest)
                   else write_files (w\<lparr>stdin := later\<rparr>) json_dict rest)
         else (case write_to_json w out_file_name json_dict key of
                 (Some e, w') \<Rightarrow> (Some e, w')
               | (None, w') \<Rightarrow> write_files w' json_dict rest))"

text \<open>\<^verbatim>\<open>main\<close>, from the arguments that \<^verbatim>\<open>get_arguments\<close> returns.\<close>

definition main :: "world \<Rightarrow> string \<Rightarrow> string list \<Rightarrow> error option \<times> world" where
  "main w file_path class_list =
     (case rdf_to_json w file_path class_list of
        Inl e \<Rightarrow> (Some e, w)
      | Inr json_dict \<Rightarrow> write_files w json_dict (map fst json_dict))"

section \<open>Reading the results\<close>

text \<open>\<^verbatim>\<open>d[k]\<close> on a dictionary, and the same on a JSON object.\<close>

fun py_get :: "pyobj \<Rightarrow> string \<Rightarrow> pyobj option" where
  "py_get (PDict kvs) k = map_of kvs k"
| "py_get PNone k = None"
| "py_get (PStr s) k = None"
| "py_get (PBool b) k = None"
| "py_get (PNode n) k = None"
| "py_get (PList xs) k = None"

fun py_keys :: "pyobj \<Rightarrow> string list" where
  "py_keys (PDict kvs) = map fst kvs"
| "py_keys PNone = []"
| "py_keys (PStr s) = []"
| "py_keys (PBool b) = []"
| "py_keys (PNode n) = []"
| "py_keys (PList xs) = []"

fun json_get :: "json \<Rightarrow> string \<Rightarrow> json option" where
  "json_get (JObject kvs) k = map_of kvs k"
| "json_get JNull k = None"
| "json_get (JString s) k = None"
| "json_get (JBool b) k = None"
| "json_get (JArray xs) k = None"

fun json_path :: "json option \<Rightarrow> string list \<Rightarrow> json option" where
  "json_path None ks = None"
| "json_path (Some j) [] = Some j"
| "json_path (Some j) (k # ks) = json_path (json_get j k) ks"

definition file_json :: "world \<Rightarrow> string \<Rightarrow> json option" where
  "file_json w name = (case files w name of Some (Json j) \<Rightarrow> Some j | _ \<Rightarrow> None)"

section \<open>Vocabulary of the properties\<close>

text \<open>
  The container nodes of a class: the objects of the \<^verbatim>\<open>owl:equivalentClass\<close> triples
  whose subject is the class IRI, in the order in which the loop meets them.
\<close>

definition containers :: "graph \<Rightarrow> string \<Rightarrow> node list" where
  "containers g class_name =
     map (\<lambda>t. snd (snd t))
       (triples g (Some (ns_term Terra class_name), Some OWL_equivalentClass, None))"

text \<open>The key under which a container's property is stored: \<^verbatim>\<open>prop.n3(...)\<close>.\<close>

definition property_key :: "graph \<Rightarrow> node \<Rightarrow> string" where
  "property_key g c =
     (case graph_value g c OWL_onProperty of None \<Rightarrow> [] | Some p \<Rightarrow> n3 g p)"

text \<open>A container qualifies when the loop's cardinality test is true for it.\<close>

definition qualifies :: "graph \<Rightarrow> node \<Rightarrow> bool" where
  "qualifies g c = (cardinality_is_one (graph_value g c OWL_cardinality) = Inr True)"

text \<open>The containers among the triples the loop runs over.\<close>

definition eq_objects :: "triple list \<Rightarrow> node list" where
  "eq_objects ts =
     map (\<lambda>t. snd (snd t)) (filter (\<lambda>t. fst (snd t) = OWL_equivalentClass) ts)"

text \<open>The document that \<^verbatim>\<open>ttl_to_json\<close> assembles around given properties and required keys.\<close>

definition document ::
  "graph \<Rightarrow> string \<Rightarrow> (string \<times> pyobj) list \<Rightarrow> string list \<Rightarrow> pyobj" where
  "document g class_name ps rq =
     PDict
       [(''$id'', PNode (ns_term Terra class_name)),
        (''$schema'', PStr ''http://json-schema.org/draft-07/schema#/''),
        (''title'', py_node (graph_value g (ns_term Terra class_name) RDFS_label)),
        (''description'',
           PStr (py_str (graph_value g (ns_term Terra class_name) Prov_definition))),
        (''definitions'', PDict []),
        (''type'', PStr ''object''),
        (''additionalProperties'', PBool True),
        (''properties'', PDict ps),
        (''required'', PList (map PStr rq))]"

section \<open>A sample model file\<close>

text \<open>
  Prefixed names under a list of namespace bindings, for the sample graph: the first
  binding whose namespace starts the IRI gives the prefix.
\<close>

fun qname :: "(string \<times> string) list \<Rightarrow> string \<Rightarrow> string" where
  "qname [] u = ''<'' @ u @ ''>''"
| "qname (b # bs) u =
     (if take (length (snd b)) u = snd b then fst b @ '':'' @ drop (length (snd b)) u
      else qname bs u)"

fun sample_n3 :: "node \<Rightarrow> string" where
  "sample_n3 (URIRef u) =
     qname [(''ex'', ''http://example.org/''),
            (''xsd'', ''http://www.w3.org/2001/XMLSchema#'')] u"
| "sample_n3 (BNode b) = ''_:'' @ b"
| "sample_n3 (Literal lexical v) = [CHR 0x22] @ lexical @ [CHR 0x22]"

definition ex_bar :: node where
  "ex_bar = URIRef ''http://example.org/bar''"

definition ex_baz :: node where
  "ex_baz = URIRef ''http://example.org/baz''"

definition ex_qux :: node where
  "ex_qux = URIRef ''http://example.org/qux''"

definition ex_quux :: node where
  "ex_quux = URIRef ''http://example.org/quux''"

definition xsd_string :: node where
  "xsd_string = URIRef ''http://www.w3.org/2001/XMLSchema#string''"

text \<open>
  Four classes: \<^verbatim>\<open>Foo\<close> with one container (property \<^verbatim>\<open>ex:bar\<close>, cardinality 1,
  range \<^verbatim>\<open>xsd:string\<close>) and a label but no definition; \<^verbatim>\<open>Dup\<close> with two containers
  on \<^verbatim>\<open>ex:bar\<close>, both of cardinality 1; \<^verbatim>\<open>Mix\<close> with four containers, of
  cardinality 2, 1, none and 0; \<^verbatim>\<open>Bad\<close> with a container that has no
  \<^verbatim>\<open>owl:onProperty\<close>.
\<close>

definition sample_graph :: graph where
  "sample_graph =
     \<lparr>store =
        [(ns_term Terra ''Foo'', RDFS_label, Literal ''Foo'' (PyStr ''Foo'')),
         (ns_term Terra ''Foo'', OWL_equivalentClass, BNode ''b1''),
         (BNode ''b1'', OWL_onProperty, ex_bar),
         (BNode ''b1'', OWL_cardinality, Literal ''1'' (PyInt 1)),
         (ex_bar, RDFS_range, xsd_string),
         (ns_term Terra ''Dup'', OWL_equivalentClass, BNode ''b2''),
         (ns_term Terra ''Dup'', OWL_equivalentClass, BNode ''b3''),
         (BNode ''b2'', OWL_onProperty, ex_bar),
         (BNode ''b2'', OWL_cardinality, Literal ''1'' (PyInt 1)),
         (BNode ''b3'', OWL_onProperty, ex_bar),
         (BNode ''b3'', OWL_cardinality, Literal ''1'' (PyInt 1)),
         (ns_term Terra ''Mix'', OWL_equivalentClass, BNode ''b4''),
         (ns_term Terra ''Mix'', OWL_equivalentClass, BNode ''b5''),
         (BNode ''b4'', OWL_onProperty, ex_baz),
         (BNode ''b4'', OWL_cardinality, Literal ''2'' (PyInt 2)),
         (BNode ''b5'', OWL_onProperty, ex_bar),
         (BNode ''b5'', OWL_cardinality, Literal ''1'' (PyInt 1)),
         (ns_term Terra ''Mix'', OWL_equivalentClass, BNode ''b7''),
         (ns_term Terra ''Mix'', OWL_equivalentClass, BNode ''b8''),
         (BNode ''b7'', OWL_onProperty, ex_qux),
         (BNode ''b8'', OWL_onProperty, ex_quux),
         (BNode ''b8'', OWL_cardinality, Literal ''0'' (PyInt 0)),
         (ns_term Terra ''Bad'', OWL_equivalentClass, BNode ''b6''),
         (BNode ''b6'', OWL_cardinality, Literal ''1'' (PyInt 1))],
      n3 = sample_n3\<rparr>"

definition sample_world :: world where
  "sample_world =
     \<lparr>files = [''model.ttl'' \<mapsto> Turtle sample_graph], stdin = []\<rparr>"

text \<open>The documents expected for the classes of the sample, written out.\<close>

definition bar_entry :: pyobj where
  "bar_entry = PDict [(''description'', PStr ''ex:bar''), (''$ref'', PNode xsd_string)]"

definition sample_Foo_doc :: pyobj where
  "sample_Foo_doc =
     PDict
       [(''$id'', PNode (URIRef ''http://datamodel.terra.bio/TerraDCAT_ap#Foo'')),
        (''$schema'', PStr ''http://json-schema.org/draft-07/schema#/''),
        (''title'', PNode (Literal ''Foo'' (PyStr ''Foo''))),
        (''description'', PStr ''None''),
        (''definitions'', PDict []),
        (''type'', PStr ''object''),
        (''additionalProperties'', PBool True),
        (''properties'', PDict (initial_properties @ [(''ex:bar'', bar_entry)])),
        (''required'', PList [PStr ''id'', PStr ''describedBy'', PStr ''ex:bar''])]"

definition sample_Dup_doc :: pyobj where
  "sample_Dup_doc =
     PDict
       [(''$id'', PNode (URIRef ''http://datamodel.terra.bio/TerraDCAT_ap#Dup'')),
        (''$schema'', PStr ''http://json-schema.org/draft-07/schema#/''),
        (''title'', PNone),
        (''description'', PStr ''None''),
        (''definitions'', PDict []),
        (''type'', PStr ''object''),
        (''additionalProperties'', PBool True),
        (''properties'', PDict (initial_properties @ [(''ex:bar'', bar_entry)])),
        (''required'',
           PList [PStr ''id'', PStr ''describedBy'', PStr ''ex:bar'', PStr ''ex:bar''])]"

definition sample_Mix_doc :: pyobj where
  "sample_Mix_doc =
     PDict
       [(''$id'', PNode (URIRef ''http://datamodel.terra.bio/TerraDCAT_ap#Mix'')),
        (''$schema'', PStr ''http://json-schema.org/draft-07/schema#/''),
        (''title'', PNone),
        (''description'', PStr ''None''),
        (''definitions'', PDict []),
        (''type'', PStr ''object''),
        (''additionalProperties'', PBool True),
        (''properties'',
           PDict (initial_properties @
             [(''ex:baz'', PDict [(''description'', PStr ''ex:baz''), (''$ref'', PNone)]),
              (''ex:bar'', bar_entry),
              (''ex:qux'', PDict [(''description'', PStr ''ex:qux''), (''$ref'', PNone)]),
              (''ex:quux'', PDict [(''description'', PStr ''ex:quux''), (''$ref'', PNone)])])),
        (''required'', PList [PStr ''id'', PStr ''describedBy'', PStr ''ex:bar''])]"

definition sample_Nope_doc :: pyobj where
  "sample_Nope_doc =
     PDict
       [(''$id'', PNode (URIRef ''http://datamodel.terra.bio/TerraDCAT_ap#Nope'')),
        (''$schema'', PStr ''http://json-schema.org/draft-07/schema#/''),
        (''title'', PNone),
        (''description'', PStr ''None''),
        (''definitions'', PDict []),
        (''type'', PStr ''object''),
        (''additionalProperties'', PBool True),
        (''properties'', PDict initial_properties),
        (''required'', PList [PStr ''id'', PStr ''describedBy''])]"

section \<open>A second model file, with unusual cardinalities\<close>

text \<open>
  Three classes: \<^verbatim>\<open>Flag\<close>, whose container on \<^verbatim>\<open>ex:bar\<close> has the boolean literal
  \<^verbatim>\<open>true\<close> as its cardinality; \<^verbatim>\<open>Two\<close>, with a first container whose cardinality is
  an IRI and a second container without \<^verbatim>\<open>owl:onProperty\<close>; \<^verbatim>\<open>Late\<close>, with a first
  container of cardinality 1 and a second one without \<^verbatim>\<open>owl:onProperty\<close>.
\<close>

definition edge_graph :: graph where
  "edge_graph =
     \<lparr>store =
        [(ns_term Terra ''Flag'', OWL_equivalentClass, BNode ''f1''),
         (BNode ''f1'', OWL_onProperty, ex_bar),
         (BNode ''f1'', OWL_cardinality, Literal ''true'' (PyBool True)),
         (ns_term Terra ''Two'', OWL_equivalentClass, BNode ''t1''),
         (ns_term Terra ''Two'', OWL_equivalentClass, BNode ''t2''),
         (BNode ''t1'', OWL_onProperty, ex_bar),
         (BNode ''t1'', OWL_cardinality, ex_baz),
         (BNode ''t2'', OWL_cardinality, Literal ''1'' (PyInt 1)),
         (ns_term Terra ''Late'', OWL_equivalentClass, BNode ''l1''),
         (ns_term Terra ''Late'', OWL_equivalentClass, BNode ''l2''),
         (BNode ''l1'', OWL_onProperty, ex_bar),
         (BNode ''l1'', OWL_cardinality, Literal ''1'' (PyInt 1)),
         (BNode ''l2'', OWL_cardinality, Literal ''1'' (PyInt 1))],
      n3 = sample_n3\<rparr>"

definition edge_world :: world where
  "edge_world =
     \<lparr>files = [''edge.ttl'' \<mapsto> Turtle edge_graph], stdin = []\<rparr>"

definition edge_Flag_doc :: pyobj where
  "edge_Flag_doc =
     PDict
       [(''$id'', PNode (URIRef ''http://datamodel.terra.bio/TerraDCAT_ap#Flag'')),
        (''$schema'', PStr ''http://json-schema.org/draft-07/schema#/''),
        (''title'', PNone),
        (''description'', PStr ''None''),
        (''definitions'', PDict []),
        (''type'', PStr ''object''),
        (''additionalProperties'', PBool True),
        (''properties'',
           PDict (initial_properties @
             [(''ex:bar'', PDict [(''description'', PStr ''ex:bar''), (''$ref'', PNone)])])),
        (''required'', PList [PStr ''id'', PStr ''describedBy'', PStr ''ex:bar''])]"

section \<open>The graph queries\<close>

lemma triples_subject:
  "triples g (Some s, None, None) = filter (\<lambda>t. fst t = s) (store g)"
  by (auto simp: triples_def intro!: filter_cong)

lemma triples_subject_predicate:
  "triples g (Some s, Some p, None) = filter (\<lambda>t. fst t = s \<and> fst (snd t) = p) (store g)"
  by (auto simp: triples_def intro!: filter_cong)

lemma containers_eq_objects:
  "containers g class_name = eq_objects (triples g (Some (ns_term Terra class_name), None, None))"
  by (simp add: containers_def eq_objects_def triples_subject triples_subject_predicate conj_commute)

lemma graph_value_None_iff:
  "graph_value g s p = None \<longleftrightarrow> (\<forall>ob. (s, p, ob) \<notin> set (store g))"
proof -
  have "graph_value g s p = None \<longleftrightarrow> filter (\<lambda>t. fst t = s \<and> fst (snd t) = p) (store g) = []"
    by (simp add: graph_value_def triples_subject_predicate split: list.splits)
  also have "\<dots> \<longleftrightarrow> (\<forall>ob. (s, p, ob) \<notin> set (store g))"
    by (auto simp: filter_empty_conv)
  finally show ?thesis .
qed


section \<open>The loop over the triples of the class\<close>

lemma property_step_Inr:
  assumes "property_step g c (ps, rq) = Inr (ps', rq')"
  shows "graph_value g c OWL_onProperty \<noteq> None"
    and "ps' = AList.update (property_key g c)
            (PDict [(''description'', PStr (property_key g c)),
                    (''$ref'', py_node (graph_value g (the (graph_value g c OWL_onProperty)) RDFS_range))]) ps"
    and "rq' = rq @ (if qualifies g c then [property_key g c] else [])"
    and "\<not> isl (cardinality_is_one (graph_value g c OWL_cardinality))"
  using assms
  by (auto simp: property_step_def property_key_def qualifies_def Let_def
      split: option.splits sum.splits if_splits)



lemma property_step_total:
  "graph_value g c OWL_onProperty \<noteq> None \<Longrightarrow>
   \<not> isl (cardinality_is_one (graph_value g c OWL_cardinality)) \<Longrightarrow>
     \<exists>st'. property_step g c st = Inr st'"
  by (cases st) (auto simp: property_step_def Let_def split: option.splits sum.splits)

lemma for_term_triples_Inr:
  "for_term_triples g ts (ps, rq) = Inr (ps', rq') \<Longrightarrow>
     rq' = rq @ map (property_key g) (filter (qualifies g) (eq_objects ts))
     \<and> set (map fst ps') = set (map fst ps) \<union> property_key g ` set (eq_objects ts)
     \<and> (distinct (map fst ps) \<longrightarrow> distinct (map fst ps'))
     \<and> (\<forall>c\<in>set (eq_objects ts). graph_value g c OWL_onProperty \<noteq> None
            \<and> \<not> isl (cardinality_is_one (graph_value g c OWL_cardinality)))"
proof (induction ts arbitrary: ps rq)
  case Nil
  then show ?case by (simp add: eq_objects_def)
next
  case (Cons t ts)
  show ?case
  proof (cases "fst (snd t) = OWL_equivalentClass")
    case False
    with Cons.prems have "for_term_triples g ts (ps, rq) = Inr (ps', rq')" by simp
    from Cons.IH [OF this] False show ?thesis by (simp add: eq_objects_def)
  next
    case True
    with Cons.prems obtain ps1 rq1 where
      step: "property_step g (snd (snd t)) (ps, rq) = Inr (ps1, rq1)" and
      rest: "for_term_triples g ts (ps1, rq1) = Inr (ps', rq')"
      by (auto split: sum.splits)
    note s = property_step_Inr [OF step]
    have eo: "eq_objects (t # ts) = snd (snd t) # eq_objects ts"
      using True by (simp add: eq_objects_def)
    have k1: "set (map fst ps1) = insert (property_key g (snd (snd t))) (set (map fst ps))"
      unfolding s(2) by (simp add: AList.dom_update)
    have d1: "distinct (map fst ps) \<longrightarrow> distinct (map fst ps1)"
      unfolding s(2) by (simp add: AList.distinct_update)
    from Cons.IH [OF rest] k1 d1 s(1) s(3) s(4) show ?thesis
      unfolding eo by auto
  qed
qed


lemma for_term_triples_total:
  "\<forall>c\<in>set (eq_objects ts). graph_value g c OWL_onProperty \<noteq> None
       \<and> \<not> isl (cardinality_is_one (graph_value g c OWL_cardinality)) \<Longrightarrow>
     \<exists>st'. for_term_triples g ts st = Inr st'"
proof (induction ts arbitrary: st)
  case Nil
  then show ?case by simp
next
  case (Cons t ts)
  show ?case
  proof (cases "fst (snd t) = OWL_equivalentClass")
    case False
    with Cons.prems have "\<forall>c\<in>set (eq_objects ts). graph_value g c OWL_onProperty \<noteq> None
       \<and> \<not> isl (cardinality_is_one (graph_value g c OWL_cardinality))"
      by (simp add: eq_objects_def)
    from Cons.IH [OF this] False show ?thesis by simp
  next
    case True
    then have eo: "eq_objects (t # ts) = snd (snd t) # eq_objects ts"
      by (simp add: eq_objects_def)
    from Cons.prems obtain st1 where step: "property_step g (snd (snd t)) st = Inr st1"
      unfolding eo using property_step_total [of g "snd (snd t)" st] by auto
    from Cons.prems have "\<forall>c\<in>set (eq_objects ts). graph_value g c OWL_onProperty \<noteq> None
       \<and> \<not> isl (cardinality_is_one (graph_value g c OWL_cardinality))"
      unfolding eo by simp
    from Cons.IH [OF this, of st1] True step show ?thesis by simp
  qed
qed

section \<open>What \<^verbatim>\<open>ttl_to_json\<close> returns\<close>

lemma schema_of_graph_Inr:
  assumes "schema_of_graph g class_name = Inr doc"
  obtains ps rq where
    "for_term_triples g (triples g (Some (ns_term Terra class_name), None, None))
       (initial_properties, initial_required) = Inr (ps, rq)"
    "doc = document g class_name ps rq"
  using assms
  by (auto simp: schema_of_graph_def document_def Let_def split: sum.splits)

lemma schema_of_graph_loop:
  "for_term_triples g (triples g (Some (ns_term Terra class_name), None, None))
       (initial_properties, initial_required) = Inr (ps, rq) \<Longrightarrow>
     schema_of_graph g class_name = Inr (document g class_name ps rq)"
  by (simp add: schema_of_graph_def document_def Let_def)


lemma ttl_to_json_Turtle:
  "files w file_path = Some (Turtle g) \<Longrightarrow>
     ttl_to_json w file_path class_name = schema_of_graph g class_name"
  by (simp add: ttl_to_json_def split: sum.splits)

lemma ttl_to_json_Inr:
  assumes "ttl_to_json w file_path class_name = Inr doc"
  obtains g where "schema_of_graph g class_name = Inr doc"
  using assms by (auto simp: ttl_to_json_def split: option.splits sum.splits)

lemma schema_of_graph_result:
  assumes "schema_of_graph g class_name = Inr doc"
  obtains ps rq where
    "doc = document g class_name ps rq"
    "rq = initial_required @ map (property_key g) (filter (qualifies g) (containers g class_name))"
    "set (map fst ps) = {''describedBy'', ''id''} \<union> property_key g ` set (containers g class_name)"
    "distinct (map fst ps)"
    "\<forall>c\<in>set (containers g class_name). graph_value g c OWL_onProperty \<noteq> None"
proof -
  from assms obtain ps rq where
    loop: "for_term_triples g (triples g (Some (ns_term Terra class_name), None, None))
       (initial_properties, initial_required) = Inr (ps, rq)" and
    doc: "doc = document g class_name ps rq"
    by (rule schema_of_graph_Inr)
  have ip: "map fst initial_properties = [''describedBy'', ''id'']"
    by (simp add: initial_properties_def)
  from for_term_triples_Inr [OF loop]
  have "rq = initial_required @ map (property_key g) (filter (qualifies g) (containers g class_name))"
    and "set (map fst ps) = {''describedBy'', ''id''} \<union> property_key g ` set (containers g class_name)"
    and "distinct (map fst ps)"
    and "\<forall>c\<in>set (containers g class_name). graph_value g c OWL_onProperty \<noteq> None"
    unfolding containers_eq_objects [symmetric] ip by auto
  with doc show thesis by (rule that)
qed

section \<open>The sample, evaluated\<close>

lemma sample_file: "files sample_world ''model.ttl'' = Some (Turtle sample_graph)"
  by (simp add: sample_world_def)

lemma ttl_to_json_sample_Foo:
  "ttl_to_json sample_world ''model.ttl'' ''Foo'' = Inr sample_Foo_doc"
  by code_simp

lemma ttl_to_json_sample_Dup:
  "ttl_to_json sample_world ''model.ttl'' ''Dup'' = Inr sample_Dup_doc"
  by code_simp

lemma ttl_to_json_sample_Mix:
  "ttl_to_json sample_world ''model.ttl'' ''Mix'' = Inr sample_Mix_doc"
  by code_simp

lemma ttl_to_json_sample_Nope:
  "ttl_to_json sample_world ''model.ttl'' ''Nope'' = Inr sample_Nope_doc"
  by code_simp

lemma ttl_to_json_sample_Bad:
  "ttl_to_json sample_world ''model.ttl'' ''Bad'' = Inl (AttributeError ''NoneType'' ''n3'')"
  by code_simp

section \<open>The identity of the document\<close>

text \<open>
  C2. Whenever \<^verbatim>\<open>ttl_to_json\<close> returns a document, its \<^verbatim>\<open>$id\<close> is the IRI made of
  the base namespace \<^verbatim>\<open>http://datamodel.terra.bio/TerraDCAT_ap#\<close> followed by the class
  name, and its \<^verbatim>\<open>$schema\<close> is the one draft-07 string of the source, whatever the
  model file and the class.
\<close>

theorem ttl_to_json_id_and_schema:
  assumes "ttl_to_json w file_path class_name = Inr doc"
  shows "py_get doc ''$id'' =
           Some (PNode (URIRef (''http://datamodel.terra.bio/TerraDCAT_ap#'' @ class_name)))
         \<and> py_get doc ''$schema'' = Some (PStr ''http://json-schema.org/draft-07/schema#/'')"
proof -
  from assms obtain g where "schema_of_graph g class_name = Inr doc"
    by (rule ttl_to_json_Inr)
  then obtain ps rq where "doc = document g class_name ps rq"
    by (rule schema_of_graph_Inr)
  then show ?thesis
    by (simp add: document_def ns_term_def Terra_def)
qed

theorem ttl_to_json_id_and_schema_witness:
  "ttl_to_json sample_world ''model.ttl'' ''Foo'' = Inr sample_Foo_doc
   \<and> py_get sample_Foo_doc ''$id'' =
       Some (PNode (URIRef ''http://datamodel.terra.bio/TerraDCAT_ap#Foo''))
   \<and> py_get sample_Foo_doc ''$schema'' = Some (PStr ''http://json-schema.org/draft-07/schema#/'')"
  using ttl_to_json_id_and_schema [OF ttl_to_json_sample_Foo] ttl_to_json_sample_Foo
  by simp

section \<open>Required properties\<close>

text \<open>
  The cardinality test is true exactly for a literal whose value compares equal to 1 in
  Python: the number 1 as an integer, a float or a \<^verbatim>\<open>Decimal\<close>, and \<^verbatim>\<open>True\<close>.
\<close>

lemma py_eq_one_iff:
  "py_eq_one v \<longleftrightarrow> v = PyInt 1 \<or> v = PyBool True \<or> v = PyFloat 1 \<or> v = PyDecimal 1"
  by (cases v) auto

lemma qualifies_iff:
  "qualifies g c \<longleftrightarrow>
     (\<exists>lexical v. graph_value g c OWL_cardinality = Some (Literal lexical v) \<and> py_eq_one v)"
proof (cases "graph_value g c OWL_cardinality")
  case None
  then show ?thesis by (simp add: qualifies_def cardinality_is_one_def)
next
  case (Some n)
  show ?thesis
  proof (cases n)
    case (Literal lexical v)
    with Some show ?thesis
      by (cases v) (auto simp: qualifies_def cardinality_is_one_def)
  qed (use Some in \<open>auto simp: qualifies_def cardinality_is_one_def\<close>)
qed

lemma sample_Mix_containers:
  "containers sample_graph ''Mix'' = [BNode ''b4'', BNode ''b5'', BNode ''b7'', BNode ''b8'']"
  by code_simp

lemma sample_Mix_qualifying:
  "map (property_key sample_graph) (filter (qualifies sample_graph) (containers sample_graph ''Mix''))
     = [''ex:bar'']"
  by code_simp

text \<open>
  C1. The source says, above the list and above the test, that the required properties
  are those with a cardinality of exactly 1; the test it runs is
  \<^verbatim>\<open>cardinality and cardinality.value == 1\<close>, and \<^verbatim>\<open>True == 1\<close> holds in Python. So
  for the class \<^verbatim>\<open>Flag\<close> of the second model file, whose only container has the
  cardinality \<^verbatim>\<open>true\<close> (a boolean, not the number 1), the key \<^verbatim>\<open>ex:bar\<close> is appended
  to \<^verbatim>\<open>required\<close>, where the property should have been left out.
\<close>

theorem required_boolean_cardinality:
  "containers edge_graph ''Flag'' = [BNode ''f1'']
   \<and> graph_value edge_graph (BNode ''f1'') OWL_cardinality = Some (Literal ''true'' (PyBool True))
   \<and> property_key edge_graph (BNode ''f1'') = ''ex:bar''
   \<and> ttl_to_json edge_world ''edge.ttl'' ''Flag'' = Inr edge_Flag_doc
   \<and> py_get edge_Flag_doc ''required'' =
       Some (PList [PStr ''id'', PStr ''describedBy'', PStr ''ex:bar''])"
  by code_simp

section \<open>The keys of \<^verbatim>\<open>properties\<close>\<close>

text \<open>
  C3, as stated, fails: the class \<^verbatim>\<open>Dup\<close> of the sample has two distinct
  \<^verbatim>\<open>owl:equivalentClass\<close> triples, whose containers both name \<^verbatim>\<open>ex:bar\<close>, and its
  document has three entries in \<^verbatim>\<open>properties\<close>, not four.
\<close>

theorem properties_entries_counterexample:
  "ttl_to_json sample_world ''model.ttl'' ''Dup'' = Inr sample_Dup_doc
   \<and> remdups (triples sample_graph (Some (ns_term Terra ''Dup''), Some OWL_equivalentClass, None))
       = [(ns_term Terra ''Dup'', OWL_equivalentClass, BNode ''b2''),
          (ns_term Terra ''Dup'', OWL_equivalentClass, BNode ''b3'')]
   \<and> map_option py_keys (py_get sample_Dup_doc ''properties'')
       = Some [''describedBy'', ''id'', ''ex:bar'']
   \<and> map_option (\<lambda>props. length (py_keys props)) (py_get sample_Dup_doc ''properties'')
       \<noteq> Some (2 + length (remdups
             (triples sample_graph (Some (ns_term Terra ''Dup''), Some OWL_equivalentClass, None))))"
  by code_simp

text \<open>
  C3, amended. In a document returned for a class, the keys of \<^verbatim>\<open>properties\<close> are
  pairwise different and are exactly \<^verbatim>\<open>describedBy\<close>, \<^verbatim>\<open>id\<close> and the keys of the
  containers of the class: one entry per distinct key, so that containers whose
  properties have the same compact form share one entry.
\<close>

theorem properties_keys:
  assumes "files w file_path = Some (Turtle g)"
    and "ttl_to_json w file_path class_name = Inr doc"
  shows "\<exists>props. py_get doc ''properties'' = Some props
           \<and> distinct (py_keys props)
           \<and> set (py_keys props) =
               {''describedBy'', ''id''} \<union> property_key g ` set (containers g class_name)"
proof -
  from assms have "schema_of_graph g class_name = Inr doc"
    by (simp add: ttl_to_json_Turtle)
  then obtain ps rq where
    doc: "doc = document g class_name ps rq" and
    ks: "set (map fst ps) = {''describedBy'', ''id''} \<union> property_key g ` set (containers g class_name)" and
    ds: "distinct (map fst ps)"
    by (rule schema_of_graph_result)
  have "py_get doc ''properties'' = Some (PDict ps)"
    by (simp add: doc document_def)
  with ks ds show ?thesis by simp
qed

lemma sample_Dup_containers:
  "containers sample_graph ''Dup'' = [BNode ''b2'', BNode ''b3'']"
  by code_simp

lemma sample_Dup_keys:
  "map (property_key sample_graph) (containers sample_graph ''Dup'') = [''ex:bar'', ''ex:bar'']"
  by code_simp

theorem properties_keys_witness:
  "files sample_world ''model.ttl'' = Some (Turtle sample_graph)
   \<and> ttl_to_json sample_world ''model.ttl'' ''Dup'' = Inr sample_Dup_doc
   \<and> (\<exists>props. py_get sample_Dup_doc ''properties'' = Some props
         \<and> distinct (py_keys props)
         \<and> set (py_keys props) = {''describedBy'', ''id'', ''ex:bar''})"
proof -
  have "property_key sample_graph ` set (containers sample_graph ''Dup'') = {''ex:bar''}"
    using sample_Dup_keys by (simp add: sample_Dup_containers)
  with properties_keys [OF sample_file ttl_to_json_sample_Dup]
  have "\<exists>props. py_get sample_Dup_doc ''properties'' = Some props
         \<and> distinct (py_keys props)
         \<and> set (py_keys props) = {''describedBy'', ''id'', ''ex:bar''}"
    by (simp add: insert_commute)
  with sample_file ttl_to_json_sample_Dup show ?thesis by simp
qed

section \<open>\<^verbatim>\<open>required\<close> against \<^verbatim>\<open>properties\<close>\<close>

text \<open>
  C7. In a document returned for a class, every element of \<^verbatim>\<open>required\<close> is a key of
  \<^verbatim>\<open>properties\<close>; \<^verbatim>\<open>required\<close> starts with the two fixed keys, and what follows
  them is the keys of the qualifying containers in the order in which the loop met them.
\<close>

theorem required_subset_and_order:
  assumes "files w file_path = Some (Turtle g)"
    and "ttl_to_json w file_path class_name = Inr doc"
  shows "\<exists>props rq. py_get doc ''properties'' = Some props
           \<and> py_get doc ''required'' = Some (PList (map PStr rq))
           \<and> set rq \<subseteq> set (py_keys props)
           \<and> take 2 rq = [''id'', ''describedBy'']
           \<and> drop 2 rq = map (property_key g) (filter (qualifies g) (containers g class_name))"
proof -
  from assms have "schema_of_graph g class_name = Inr doc"
    by (simp add: ttl_to_json_Turtle)
  then obtain ps rq where
    doc: "doc = document g class_name ps rq" and
    rq: "rq = initial_required @ map (property_key g) (filter (qualifies g) (containers g class_name))" and
    ks: "set (map fst ps) = {''describedBy'', ''id''} \<union> property_key g ` set (containers g class_name)"
    by (rule schema_of_graph_result)
  have p: "py_get doc ''properties'' = Some (PDict ps)"
    and r: "py_get doc ''required'' = Some (PList (map PStr rq))"
    by (simp_all add: doc document_def)
  have s: "set rq \<subseteq> set (py_keys (PDict ps))"
    using ks by (auto simp: rq initial_required_def)
  have t: "take 2 rq = [''id'', ''describedBy'']"
    and d: "drop 2 rq = map (property_key g) (filter (qualifies g) (containers g class_name))"
    by (simp_all add: rq initial_required_def)
  from p r s t d show ?thesis by blast
qed

theorem required_subset_and_order_witness:
  "files sample_world ''model.ttl'' = Some (Turtle sample_graph)
   \<and> ttl_to_json sample_world ''model.ttl'' ''Mix'' = Inr sample_Mix_doc
   \<and> (\<exists>props rq. py_get sample_Mix_doc ''properties'' = Some props
           \<and> py_get sample_Mix_doc ''required'' = Some (PList (map PStr rq))
           \<and> set rq \<subseteq> set (py_keys props)
           \<and> take 2 rq = [''id'', ''describedBy'']
           \<and> drop 2 rq = [''ex:bar''])"
  using required_subset_and_order [OF sample_file ttl_to_json_sample_Mix]
    sample_file ttl_to_json_sample_Mix
  by (simp add: sample_Mix_qualifying)

section \<open>Missing title and description\<close>

text \<open>
  C9. In a document returned for a class that has no \<^verbatim>\<open>prov:definition\<close> triple,
  \<^verbatim>\<open>description\<close> is the string \<^verbatim>\<open>None\<close> of four characters, also in the
  JSON written; for a class that has no \<^verbatim>\<open>rdfs:label\<close> triple, \<^verbatim>\<open>title\<close> is
  \<^verbatim>\<open>None\<close>, written as \<^verbatim>\<open>null\<close>. The two missing values are treated differently.
\<close>

theorem missing_definition_and_label:
  assumes "files w file_path = Some (Turtle g)"
    and "ttl_to_json w file_path class_name = Inr doc"
  shows "((\<forall>ob. (ns_term Terra class_name, Prov_definition, ob) \<notin> set (store g)) \<longrightarrow>
            py_get doc ''description'' = Some (PStr ''None'')
            \<and> json_get (json_dump doc) ''description'' = Some (JString ''None''))
         \<and> ((\<forall>ob. (ns_term Terra class_name, RDFS_label, ob) \<notin> set (store g)) \<longrightarrow>
            py_get doc ''title'' = Some PNone
            \<and> json_get (json_dump doc) ''title'' = Some JNull)"
proof -
  from assms have "schema_of_graph g class_name = Inr doc"
    by (simp add: ttl_to_json_Turtle)
  then obtain ps rq where doc: "doc = document g class_name ps rq"
    by (rule schema_of_graph_Inr)
  show ?thesis
    unfolding graph_value_None_iff [symmetric]
    by (simp add: doc document_def py_str_def py_node_def)
qed

theorem missing_definition_and_label_witness:
  "files sample_world ''model.ttl'' = Some (Turtle sample_graph)
   \<and> ttl_to_json sample_world ''model.ttl'' ''Dup'' = Inr sample_Dup_doc
   \<and> graph_value sample_graph (ns_term Terra ''Dup'') Prov_definition = None
   \<and> graph_value sample_graph (ns_term Terra ''Dup'') RDFS_label = None
   \<and> py_get sample_Dup_doc ''description'' = Some (PStr ''None'')
   \<and> json_get (json_dump sample_Dup_doc) ''description'' = Some (JString ''None'')
   \<and> py_get sample_Dup_doc ''title'' = Some PNone
   \<and> json_get (json_dump sample_Dup_doc) ''title'' = Some JNull"
proof -
  have d: "graph_value sample_graph (ns_term Terra ''Dup'') Prov_definition = None"
    and l: "graph_value sample_graph (ns_term Terra ''Dup'') RDFS_label = None"
    by code_simp+
  note n = d [unfolded graph_value_None_iff] l [unfolded graph_value_None_iff]
  from missing_definition_and_label [OF sample_file ttl_to_json_sample_Dup] n
    sample_file ttl_to_json_sample_Dup d l
  show ?thesis by blast
qed

section \<open>Repeated keys\<close>

lemma count_list_map_filter:
  "count_list (map f xs) k = length (filter (\<lambda>x. f x = k) xs)"
  by (induction xs) auto

text \<open>
  C10. In a document returned for a class, a key occurs in \<^verbatim>\<open>required\<close> once for each
  qualifying container of the class with that key (next to the occurrences of the two
  fixed keys), so twice or more when several containers of cardinality 1 have the same
  key, while the keys of \<^verbatim>\<open>properties\<close> are pairwise different and hold the key of
  every container. A container whose cardinality is the integer 1 qualifies.
\<close>

theorem required_duplicates:
  assumes "files w file_path = Some (Turtle g)"
    and "ttl_to_json w file_path class_name = Inr doc"
  shows "\<exists>props rq. py_get doc ''properties'' = Some props
           \<and> py_get doc ''required'' = Some (PList (map PStr rq))
           \<and> distinct (py_keys props)
           \<and> property_key g ` set (containers g class_name) \<subseteq> set (py_keys props)
           \<and> (\<forall>k. count_list rq k = count_list [''id'', ''describedBy''] k
                 + length (filter (\<lambda>c. property_key g c = k)
                     (filter (qualifies g) (containers g class_name))))
           \<and> (\<forall>c lexical. graph_value g c OWL_cardinality = Some (Literal lexical (PyInt 1))
                 \<longrightarrow> qualifies g c)"
proof -
  from assms have "schema_of_graph g class_name = Inr doc"
    by (simp add: ttl_to_json_Turtle)
  then obtain ps rq where
    doc: "doc = document g class_name ps rq" and
    rq: "rq = initial_required @ map (property_key g) (filter (qualifies g) (containers g class_name))" and
    ds: "distinct (map fst ps)" and
    ks: "set (map fst ps) = {''describedBy'', ''id''} \<union> property_key g ` set (containers g class_name)"
    by (rule schema_of_graph_result)
  have p: "py_get doc ''properties'' = Some (PDict ps)"
    and r: "py_get doc ''required'' = Some (PList (map PStr rq))"
    by (simp_all add: doc document_def)
  have c1: "distinct (py_keys (PDict ps))"
    and c0: "property_key g ` set (containers g class_name) \<subseteq> set (py_keys (PDict ps))"
    using ds ks by auto
  have c2: "\<forall>k. count_list rq k = count_list [''id'', ''describedBy''] k
                 + length (filter (\<lambda>c. property_key g c = k)
                     (filter (qualifies g) (containers g class_name)))"
    unfolding rq initial_required_def count_list_append count_list_map_filter by simp
  have c3: "\<forall>c lexical. graph_value g c OWL_cardinality = Some (Literal lexical (PyInt 1))
                 \<longrightarrow> qualifies g c"
    by (simp add: qualifies_iff)
  from p r c0 c1 c2 c3 show ?thesis by blast
qed

theorem required_duplicates_witness:
  "files sample_world ''model.ttl'' = Some (Turtle sample_graph)
   \<and> ttl_to_json sample_world ''model.ttl'' ''Dup'' = Inr sample_Dup_doc
   \<and> filter (\<lambda>c. property_key sample_graph c = ''ex:bar'')
       (filter (qualifies sample_graph) (containers sample_graph ''Dup'')) = [BNode ''b2'', BNode ''b3'']
   \<and> (\<exists>props rq. py_get sample_Dup_doc ''properties'' = Some props
         \<and> py_get sample_Dup_doc ''required'' = Some (PList (map PStr rq))
         \<and> distinct (py_keys props)
         \<and> ''ex:bar'' \<in> set (py_keys props)
         \<and> count_list rq ''ex:bar'' = 2)"
proof -
  have f: "filter (\<lambda>c. property_key sample_graph c = ''ex:bar'')
       (filter (qualifies sample_graph) (containers sample_graph ''Dup'')) = [BNode ''b2'', BNode ''b3'']"
    by code_simp
  from required_duplicates [OF sample_file ttl_to_json_sample_Dup]
  obtain props rq where
    a: "py_get sample_Dup_doc ''properties'' = Some props"
      "py_get sample_Dup_doc ''required'' = Some (PList (map PStr rq))"
      "distinct (py_keys props)"
      "property_key sample_graph ` set (containers sample_graph ''Dup'') \<subseteq> set (py_keys props)"
    and b: "\<forall>k. count_list rq k = count_list [''id'', ''describedBy''] k
                 + length (filter (\<lambda>c. property_key sample_graph c = k)
                     (filter (qualifies sample_graph) (containers sample_graph ''Dup'')))"
    by blast
  from b have "count_list rq ''ex:bar'' = count_list [''id'', ''describedBy''] ''ex:bar''
                 + length (filter (\<lambda>c. property_key sample_graph c = ''ex:bar'')
                     (filter (qualifies sample_graph) (containers sample_graph ''Dup'')))"
    by (rule spec)
  then have "count_list rq ''ex:bar'' = 2"
    unfolding f by simp
  moreover have "''ex:bar'' \<in> property_key sample_graph ` set (containers sample_graph ''Dup'')"
    using sample_Dup_keys by (simp add: sample_Dup_containers)
  with a(4) have "''ex:bar'' \<in> set (py_keys props)" by blast
  ultimately show ?thesis
    using a(1-3) f sample_file ttl_to_json_sample_Dup by blast
qed

section \<open>Containers without a property\<close>










section \<open>Classes the graph does not describe\<close>

lemma schema_of_graph_total:
  assumes "\<forall>c\<in>set (containers g class_name). graph_value g c OWL_onProperty \<noteq> None
             \<and> \<not> isl (cardinality_is_one (graph_value g c OWL_cardinality))"
  shows "\<exists>ps rq. schema_of_graph g class_name = Inr (document g class_name ps rq)"
proof -
  from assms obtain st' where
    "for_term_triples g (triples g (Some (ns_term Terra class_name), None, None))
       (initial_properties, initial_required) = Inr st'"
    unfolding containers_eq_objects using for_term_triples_total by blast
  then have "schema_of_graph g class_name = Inr (document g class_name (fst st') (snd st'))"
    by (intro schema_of_graph_loop) simp
  then show ?thesis by blast
qed

lemma sample_Foo_containers: "containers sample_graph ''Foo'' = [BNode ''b1'']"
  by code_simp

text \<open>
  C4, as stated, fails in its first half: the sample has no triple whose subject is the
  class \<^verbatim>\<open>Nope\<close>, and \<^verbatim>\<open>ttl_to_json\<close> returns a document for it.
\<close>

theorem unknown_class_counterexample:
  "triples sample_graph (Some (ns_term Terra ''Nope''), None, None) = []
   \<and> ttl_to_json sample_world ''model.ttl'' ''Nope'' = Inr sample_Nope_doc"
  by code_simp

text \<open>
  C4, amended. \<^verbatim>\<open>ttl_to_json\<close> does not fail when the class name resolves to no
  triple of the graph: it returns the document with a \<^verbatim>\<open>None\<close> title, the description
  \<^verbatim>\<open>None\<close>, the two fixed properties and the two fixed required keys. And whenever
  every container of the class has a property and a cardinality the test accepts, a
  document is returned whether or not the label and the definition are there: its title
  is the label or \<^verbatim>\<open>None\<close>, its description the definition or the string \<^verbatim>\<open>None\<close>.
\<close>

theorem unknown_class_or_missing_fields:
  assumes "files w file_path = Some (Turtle g)"
  shows "((\<forall>p ob. (ns_term Terra class_name, p, ob) \<notin> set (store g)) \<longrightarrow>
            ttl_to_json w file_path class_name =
              Inr (PDict
                [(''$id'', PNode (ns_term Terra class_name)),
                 (''$schema'', PStr ''http://json-schema.org/draft-07/schema#/''),
                 (''title'', PNone),
                 (''description'', PStr ''None''),
                 (''definitions'', PDict []),
                 (''type'', PStr ''object''),
                 (''additionalProperties'', PBool True),
                 (''properties'', PDict initial_properties),
                 (''required'', PList [PStr ''id'', PStr ''describedBy''])]))
         \<and> ((\<forall>c\<in>set (containers g class_name). graph_value g c OWL_onProperty \<noteq> None
                \<and> \<not> isl (cardinality_is_one (graph_value g c OWL_cardinality))) \<longrightarrow>
             (\<exists>doc. ttl_to_json w file_path class_name = Inr doc
                \<and> py_get doc ''title'' =
                    Some (case graph_value g (ns_term Terra class_name) RDFS_label of
                            None \<Rightarrow> PNone | Some n \<Rightarrow> PNode n)
                \<and> py_get doc ''description'' =
                    Some (PStr (case graph_value g (ns_term Terra class_name) Prov_definition of
                                  None \<Rightarrow> ''None'' | Some n \<Rightarrow> str_node n))))"
proof (intro conjI impI)
  have t: "ttl_to_json w file_path class_name = schema_of_graph g class_name"
    using assms by (rule ttl_to_json_Turtle)
  {
    assume none: "\<forall>p ob. (ns_term Terra class_name, p, ob) \<notin> set (store g)"
    then have e: "triples g (Some (ns_term Terra class_name), None, None) = []"
      by (auto simp: triples_subject filter_empty_conv)
    from none have "graph_value g (ns_term Terra class_name) RDFS_label = None"
      and "graph_value g (ns_term Terra class_name) Prov_definition = None"
      by (simp_all add: graph_value_None_iff)
    then show "ttl_to_json w file_path class_name =
              Inr (PDict
                [(''$id'', PNode (ns_term Terra class_name)),
                 (''$schema'', PStr ''http://json-schema.org/draft-07/schema#/''),
                 (''title'', PNone),
                 (''description'', PStr ''None''),
                 (''definitions'', PDict []),
                 (''type'', PStr ''object''),
                 (''additionalProperties'', PBool True),
                 (''properties'', PDict initial_properties),
                 (''required'', PList [PStr ''id'', PStr ''describedBy''])])"
      unfolding t
      by (simp add: schema_of_graph_def e Let_def py_node_def py_str_def initial_required_def)
  }
  {
    assume "\<forall>c\<in>set (containers g class_name). graph_value g c OWL_onProperty \<noteq> None
                \<and> \<not> isl (cardinality_is_one (graph_value g c OWL_cardinality))"
    then obtain ps rq where "schema_of_graph g class_name = Inr (document g class_name ps rq)"
      using schema_of_graph_total by blast
    then show "\<exists>doc. ttl_to_json w file_path class_name = Inr doc
                \<and> py_get doc ''title'' =
                    Some (case graph_value g (ns_term Terra class_name) RDFS_label of
                            None \<Rightarrow> PNone | Some n \<Rightarrow> PNode n)
                \<and> py_get doc ''description'' =
                    Some (PStr (case graph_value g (ns_term Terra class_name) Prov_definition of
                                  None \<Rightarrow> ''None'' | Some n \<Rightarrow> str_node n))"
      unfolding t by (simp add: document_def py_node_def py_str_def)
  }
qed

theorem unknown_class_or_missing_fields_witness:
  "files sample_world ''model.ttl'' = Some (Turtle sample_graph)
   \<and> triples sample_graph (Some (ns_term Terra ''Nope''), None, None) = []
   \<and> ttl_to_json sample_world ''model.ttl'' ''Nope'' =
       Inr (PDict
         [(''$id'', PNode (ns_term Terra ''Nope'')),
          (''$schema'', PStr ''http://json-schema.org/draft-07/schema#/''),
          (''title'', PNone),
          (''description'', PStr ''None''),
          (''definitions'', PDict []),
          (''type'', PStr ''object''),
          (''additionalProperties'', PBool True),
          (''properties'', PDict initial_properties),
          (''required'', PList [PStr ''id'', PStr ''describedBy''])])
   \<and> graph_value sample_graph (ns_term Terra ''Foo'') Prov_definition = None
   \<and> (\<exists>doc. ttl_to_json sample_world ''model.ttl'' ''Foo'' = Inr doc
         \<and> py_get doc ''title'' = Some (PNode (Literal ''Foo'' (PyStr ''Foo'')))
         \<and> py_get doc ''description'' = Some (PStr ''None''))"
proof -
  note t = unknown_class_or_missing_fields [OF sample_file]
  have e: "triples sample_graph (Some (ns_term Terra ''Nope''), None, None) = []"
    by code_simp
  then have "\<forall>p ob. (ns_term Terra ''Nope'', p, ob) \<notin> set (store sample_graph)"
    by (auto simp: triples_subject filter_empty_conv)
  with t [of "''Nope''"] have 1: "ttl_to_json sample_world ''model.ttl'' ''Nope'' =
       Inr (PDict
         [(''$id'', PNode (ns_term Terra ''Nope'')),
          (''$schema'', PStr ''http://json-schema.org/draft-07/schema#/''),
          (''title'', PNone),
          (''description'', PStr ''None''),
          (''definitions'', PDict []),
          (''type'', PStr ''object''),
          (''additionalProperties'', PBool True),
          (''properties'', PDict initial_properties),
          (''required'', PList [PStr ''id'', PStr ''describedBy''])])"
    by blast
  have p: "graph_value sample_graph (BNode ''b1'') OWL_onProperty \<noteq> None"
    and k: "\<not> isl (cardinality_is_one (graph_value sample_graph (BNode ''b1'') OWL_cardinality))"
    and l: "graph_value sample_graph (ns_term Terra ''Foo'') RDFS_label
              = Some (Literal ''Foo'' (PyStr ''Foo''))"
    and d: "graph_value sample_graph (ns_term Terra ''Foo'') Prov_definition = None"
    by code_simp+
  from p k have "\<forall>c\<in>set (containers sample_graph ''Foo'').
        graph_value sample_graph c OWL_onProperty \<noteq> None
        \<and> \<not> isl (cardinality_is_one (graph_value sample_graph c OWL_cardinality))"
    by (simp add: sample_Foo_containers)
  with t [of "''Foo''"] have 2: "\<exists>doc. ttl_to_json sample_world ''model.ttl'' ''Foo'' = Inr doc
         \<and> py_get doc ''title'' = Some (PNode (Literal ''Foo'' (PyStr ''Foo'')))
         \<and> py_get doc ''description'' = Some (PStr ''None'')"
    unfolding l d by simp
  from sample_file e 1 d 2 show ?thesis by blast
qed

section \<open>The driver\<close>

lemma rdf_to_json_from_fails:
  "\<forall>c'\<in>set before. \<not> isl (ttl_to_json w file_path c') \<Longrightarrow>
   ttl_to_json w file_path c = Inl e \<Longrightarrow>
     rdf_to_json_from w file_path (before @ c # after) acc = Inl e"
proof (induction before arbitrary: acc)
  case Nil
  then show ?case by simp
next
  case (Cons b before)
  from Cons.prems(1) obtain d where "ttl_to_json w file_path b = Inr d"
    by (cases "ttl_to_json w file_path b") auto
  with Cons show ?case by simp
qed

text \<open>
  C5, as stated, fails in its second half: with the classes \<^verbatim>\<open>Foo\<close>, \<^verbatim>\<open>Bad\<close> and
  \<^verbatim>\<open>Mix\<close> of the sample, the extraction succeeds for \<^verbatim>\<open>Foo\<close> and fails for
  \<^verbatim>\<open>Bad\<close>, the run ends with that error, and there is no \<^verbatim>\<open>Foo.json\<close>.
\<close>

theorem main_failure_counterexample:
  "ttl_to_json sample_world ''model.ttl'' ''Foo'' = Inr sample_Foo_doc
   \<and> ttl_to_json sample_world ''model.ttl'' ''Bad'' = Inl (AttributeError ''NoneType'' ''n3'')
   \<and> fst (main sample_world ''model.ttl'' [''Foo'', ''Bad'', ''Mix''])
       = Some (AttributeError ''NoneType'' ''n3'')
   \<and> path_exists (snd (main sample_world ''model.ttl'' [''Foo'', ''Bad'', ''Mix''])) ''Foo.json''
       = False"
  by code_simp

text \<open>
  C5, amended. In a run over several classes, when the extraction fails for a class and
  has succeeded for the classes before it, the run ends with that error before any output
  file is written: \<^verbatim>\<open>rdf_to_json\<close> builds every document before \<^verbatim>\<open>main\<close> writes
  the first one, so the files and the standard input are left as they were.
\<close>

theorem main_failure_writes_nothing:
  assumes "\<forall>c'\<in>set before. \<not> isl (ttl_to_json w file_path c')"
    and "ttl_to_json w file_path c = Inl e"
  shows "main w file_path (before @ c # after) = (Some e, w)"
  using rdf_to_json_from_fails [OF assms]
  by (simp add: main_def rdf_to_json_def)

theorem main_failure_writes_nothing_witness:
  "\<not> isl (ttl_to_json sample_world ''model.ttl'' ''Foo'')
   \<and> ttl_to_json sample_world ''model.ttl'' ''Bad'' = Inl (AttributeError ''NoneType'' ''n3'')
   \<and> main sample_world ''model.ttl'' [''Foo'', ''Bad'', ''Mix'']
       = (Some (AttributeError ''NoneType'' ''n3''), sample_world)"
proof -
  have a: "\<forall>c'\<in>set [''Foo'']. \<not> isl (ttl_to_json sample_world ''model.ttl'' c')"
    by (simp add: ttl_to_json_sample_Foo)
  from main_failure_writes_nothing [OF a ttl_to_json_sample_Bad, of "[''Mix'']"]
    a ttl_to_json_sample_Bad
  show ?thesis by simp
qed

section \<open>End to end: one class, one property\<close>

lemma for_term_triples_no_container:
  "eq_objects ts = [] \<Longrightarrow> for_term_triples g ts st = Inr st"
  by (induction ts) (auto simp: eq_objects_def split: if_splits)

lemma for_term_triples_one_container:
  "eq_objects ts = [c] \<Longrightarrow>
     for_term_triples g ts st = property_step g c st"
proof (induction ts)
  case Nil
  then show ?case by (simp add: eq_objects_def)
next
  case (Cons t ts)
  show ?case
  proof (cases "fst (snd t) = OWL_equivalentClass")
    case False
    with Cons show ?thesis by (simp add: eq_objects_def)
  next
    case True
    with Cons.prems have c: "snd (snd t) = c" and e: "eq_objects ts = []"
      by (simp_all add: eq_objects_def)
    from True c show ?thesis
      by (simp add: for_term_triples_no_container [OF e] split: sum.splits)
  qed
qed

lemma schema_of_graph_one_container:
  assumes "containers g class_name = [c]"
    and "graph_value g c OWL_onProperty = Some p"
    and "n3 g p \<noteq> ''describedBy''" and "n3 g p \<noteq> ''id''"
    and "graph_value g c OWL_cardinality = Some (Literal lexical (PyInt 1))"
  shows "schema_of_graph g class_name =
           Inr (document g class_name
             (initial_properties @
                [(n3 g p, PDict [(''description'', PStr (n3 g p)),
                                 (''$ref'', py_node (graph_value g p RDFS_range))])])
             [''id'', ''describedBy'', n3 g p])"
proof -
  have "for_term_triples g (triples g (Some (ns_term Terra class_name), None, None))
          (initial_properties, initial_required)
        = property_step g c (initial_properties, initial_required)"
    using assms(1) unfolding containers_eq_objects by (rule for_term_triples_one_container)
  also have "\<dots> = Inr (initial_properties @
                [(n3 g p, PDict [(''description'', PStr (n3 g p)),
                                 (''$ref'', py_node (graph_value g p RDFS_range))])],
             [''id'', ''describedBy'', n3 g p])"
    using assms(2-5)
    by (simp add: property_step_def Let_def cardinality_is_one_def initial_properties_def
        initial_required_def)
  finally show ?thesis by (rule schema_of_graph_loop)
qed

lemma main_one_class:
  assumes "ttl_to_json w file_path class_name = Inr doc"
    and "\<not> path_exists w (class_name @ ''.json'') \<or> take 1 (stdin w) = [''y'']"
  shows "fst (main w file_path [class_name]) = None
         \<and> file_json (snd (main w file_path [class_name])) (class_name @ ''.json'')
             = Some (json_dump doc)"
proof (cases "path_exists w (class_name @ ''.json'')")
  case False
  with assms(1) show ?thesis
    by (simp add: main_def rdf_to_json_def write_to_json_def file_json_def Let_def)
next
  case True
  with assms(2) obtain later where "stdin w = ''y'' # later"
    by (cases "stdin w") auto
  with True assms(1) show ?thesis
    by (simp add: main_def rdf_to_json_def write_to_json_def file_json_def Let_def)
qed

text \<open>
  C8, as stated, fails in its last part: for the class \<^verbatim>\<open>Foo\<close> of the sample (one
  container, property \<^verbatim>\<open>ex:bar\<close>, cardinality 1, range \<^verbatim>\<open>xsd:string\<close>) the
  \<^verbatim>\<open>$ref\<close> written to \<^verbatim>\<open>Foo.json\<close> is the full IRI of the range, not the compact
  string \<^verbatim>\<open>xsd:string\<close>.
\<close>

theorem export_Foo_ref_counterexample:
  "containers sample_graph ''Foo'' = [BNode ''b1'']
   \<and> graph_value sample_graph (BNode ''b1'') OWL_onProperty = Some ex_bar
   \<and> n3 sample_graph ex_bar = ''ex:bar''
   \<and> graph_value sample_graph (BNode ''b1'') OWL_cardinality = Some (Literal ''1'' (PyInt 1))
   \<and> graph_value sample_graph ex_bar RDFS_range = Some xsd_string
   \<and> n3 sample_graph xsd_string = ''xsd:string''
   \<and> fst (main sample_world ''model.ttl'' [''Foo'']) = None
   \<and> json_path (file_json (snd (main sample_world ''model.ttl'' [''Foo''])) ''Foo.json'')
        [''properties'', ''ex:bar'', ''$ref'']
       = Some (JString ''http://www.w3.org/2001/XMLSchema#string'')
   \<and> json_path (file_json (snd (main sample_world ''model.ttl'' [''Foo''])) ''Foo.json'')
        [''properties'', ''ex:bar'', ''$ref'']
       \<noteq> Some (JString ''xsd:string'')"
  by code_simp

text \<open>
  C8, amended. For a graph in which the class \<^verbatim>\<open>Foo\<close> has one container, with a
  property of compact form \<^verbatim>\<open>ex:bar\<close>, the integer cardinality 1 and the range
  \<^verbatim>\<open>xsd:string\<close>, a run with the class list \<^verbatim>\<open>["Foo"]\<close>, when \<^verbatim>\<open>Foo.json\<close> does
  not exist yet or the answer to the overwrite question is \<^verbatim>\<open>y\<close>, ends without error
  and writes \<^verbatim>\<open>Foo.json\<close> with \<^verbatim>\<open>required\<close> equal to
  \<^verbatim>\<open>["id", "describedBy", "ex:bar"]\<close> and the \<^verbatim>\<open>$ref\<close> of \<^verbatim>\<open>ex:bar\<close> equal to the
  full IRI \<^verbatim>\<open>http://www.w3.org/2001/XMLSchema#string\<close>.
\<close>

theorem export_Foo:
  assumes "files w file_path = Some (Turtle g)"
    and "\<not> path_exists w ''Foo.json'' \<or> take 1 (stdin w) = [''y'']"
    and "containers g ''Foo'' = [c]"
    and "graph_value g c OWL_onProperty = Some p"
    and "n3 g p = ''ex:bar''"
    and "graph_value g c OWL_cardinality = Some (Literal lexical (PyInt 1))"
    and "graph_value g p RDFS_range = Some (URIRef ''http://www.w3.org/2001/XMLSchema#string'')"
  shows "fst (main w file_path [''Foo'']) = None
         \<and> json_path (file_json (snd (main w file_path [''Foo''])) ''Foo.json'') [''required'']
             = Some (JArray [JString ''id'', JString ''describedBy'', JString ''ex:bar''])
         \<and> json_path (file_json (snd (main w file_path [''Foo''])) ''Foo.json'')
               [''properties'', ''ex:bar'', ''$ref'']
             = Some (JString ''http://www.w3.org/2001/XMLSchema#string'')"
proof -
  let ?doc = "document g ''Foo''
             (initial_properties @
                [(''ex:bar'', PDict [(''description'', PStr ''ex:bar''),
                   (''$ref'', PNode (URIRef ''http://www.w3.org/2001/XMLSchema#string''))])])
             [''id'', ''describedBy'', ''ex:bar'']"
  have "schema_of_graph g ''Foo'' = Inr ?doc"
    using schema_of_graph_one_container [OF assms(3) assms(4) _ _ assms(6)] assms(5) assms(7)
    by (simp add: py_node_def)
  with assms(1) have "ttl_to_json w file_path ''Foo'' = Inr ?doc"
    by (simp add: ttl_to_json_Turtle)
  from main_one_class [OF this] assms(2)
  have m: "fst (main w file_path [''Foo'']) = None"
    and f: "file_json (snd (main w file_path [''Foo''])) ''Foo.json'' = Some (json_dump ?doc)"
    by simp_all
  show ?thesis
    unfolding f using m by (simp add: document_def initial_properties_def)
qed

theorem export_Foo_witness:
  "files sample_world ''model.ttl'' = Some (Turtle sample_graph)
   \<and> path_exists sample_world ''Foo.json'' = False
   \<and> fst (main sample_world ''model.ttl'' [''Foo'']) = None
   \<and> json_path (file_json (snd (main sample_world ''model.ttl'' [''Foo''])) ''Foo.json'')
        [''required'']
       = Some (JArray [JString ''id'', JString ''describedBy'', JString ''ex:bar''])
   \<and> json_path (file_json (snd (main sample_world ''model.ttl'' [''Foo''])) ''Foo.json'')
        [''properties'', ''ex:bar'', ''$ref'']
       = Some (JString ''http://www.w3.org/2001/XMLSchema#string'')"
proof -
  have e: "path_exists sample_world ''Foo.json'' = False"
    by code_simp
  then have a2: "\<not> path_exists sample_world ''Foo.json'' \<or> take 1 (stdin sample_world) = [''y'']"
    by simp
  have a4: "graph_value sample_graph (BNode ''b1'') OWL_onProperty = Some ex_bar"
    and a5: "n3 sample_graph ex_bar = ''ex:bar''"
    and a6: "graph_value sample_graph (BNode ''b1'') OWL_cardinality = Some (Literal ''1'' (PyInt 1))"
    and a7: "graph_value sample_graph ex_bar RDFS_range
               = Some (URIRef ''http://www.w3.org/2001/XMLSchema#string'')"
    by code_simp+
  from export_Foo [OF sample_file a2 sample_Foo_containers a4 a5 a6 a7] sample_file e
  show ?thesis by simp
qed

end
